theory Spec2Isabelle
  imports Main
begin

section \<open>JavaScript values, dates and optional fields\<close>

text \<open>
  The values that flow through \<^verbatim>\<open>Job.js\<close> as failure reasons, thrown exceptions,
  callback arguments and opaque attributes. Numbers are integers here (no NaN, no
  fractions); an \<^verbatim>\<open>Error\<close> object is its class together with its message.
\<close>

datatype errname = Error | TypeError | RangeError

datatype jsval =
    JUndefined
  | JNull
  | JBool bool
  | JNum int
  | JStr string
  | JError errname string

text \<open>JavaScript truthiness, as tested by \<^verbatim>\<open>if (x)\<close>, \<^verbatim>\<open>x || y\<close> and \<^verbatim>\<open>!x\<close>.\<close>

fun truthy :: "jsval \<Rightarrow> bool" where
  "truthy JUndefined = False"
| "truthy JNull = False"
| "truthy (JBool b) = b"
| "truthy (JNum n) = (n \<noteq> 0)"
| "truthy (JStr s) = (s \<noteq> [])"
| "truthy (JError k m) = True"


fun digits :: "nat \<Rightarrow> string" where
  "digits n =
     (if n < 10 then [char_of (48 + n)]
      else digits (n div 10) @ [char_of (48 + n mod 10)])"

declare digits.simps [simp del]

fun errname_toString :: "errname \<Rightarrow> string" where
  "errname_toString Error = ''Error''"
| "errname_toString TypeError = ''TypeError''"
| "errname_toString RangeError = ''RangeError''"

text \<open>String conversion as done by a template literal \<^verbatim>\<open>`${v}`\<close>.\<close>

fun toString :: "jsval \<Rightarrow> string" where
  "toString JUndefined = ''undefined''"
| "toString JNull = ''null''"
| "toString (JBool b) = (if b then ''true'' else ''false'')"
| "toString (JNum n) = (if n < 0 then ''-'' @ digits (nat (- n)) else digits (nat n))"
| "toString (JStr s) = s"
| "toString (JError k m) =
     (if m = [] then errname_toString k else errname_toString k @ '': '' @ m)"

text \<open>
  A \<^verbatim>\<open>Date\<close> object: a time value in milliseconds since the epoch, or the invalid
  date (time value NaN). An attribute that holds a date may also be
  \<^verbatim>\<open>undefined\<close> or \<^verbatim>\<open>null\<close>.
\<close>

datatype date = Date int | InvalidDate

datatype 'a field = Undefined | Null | Def 'a

text \<open>An object is always truthy, an invalid date included.\<close>

fun present :: "'a field \<Rightarrow> bool" where
  "present (Def x) = True"
| "present Undefined = False"
| "present Null = False"

text \<open>\<^verbatim>\<open>getTime()\<close> and \<^verbatim>\<open>valueOf()\<close>: \<open>None\<close> stands for NaN.\<close>

fun getTime :: "date \<Rightarrow> int option" where
  "getTime (Date t) = Some t"
| "getTime InvalidDate = None"

text \<open>\<^verbatim>\<open>a > b\<close> and \<^verbatim>\<open>a < b\<close> on numbers: false as soon as one side is NaN.\<close>

fun js_gt :: "int option \<Rightarrow> int option \<Rightarrow> bool" where
  "js_gt (Some x) (Some y) = (x > y)"
| "js_gt a b = False"

fun js_lt :: "int option \<Rightarrow> int option \<Rightarrow> bool" where
  "js_lt (Some x) (Some y) = (x < y)"
| "js_lt a b = False"

text \<open>\<^verbatim>\<open>toISOString()\<close> throws a RangeError on the invalid date.\<close>

fun toISOString :: "date \<Rightarrow> jsval option" where
  "toISOString (Date t) = None"
| "toISOString InvalidDate = Some (JError RangeError ''Invalid time value'')"

section \<open>The job record and its surroundings\<close>

text \<open>
  The attribute object \<^verbatim>\<open>this.attrs\<close>. The specification object handed to the
  constructor has the same fields, with a raw priority and an optional
  \<^verbatim>\<open>disabled\<close>, hence the two type parameters.
\<close>

record ('p, 'd) job_fields =
  job_id :: jsval
  name :: string
  jtype :: jsval
  priority :: 'p
  data :: jsval
  nextRunAt :: "date field"
  lastRunAt :: "date field"
  lastFinishedAt :: "date field"
  lockedAt :: "date field"
  failCount :: "int option"
  failReason :: jsval
  failedAt :: "date field"
  disabled :: 'd
  unique :: jsval
  uniqueOpts :: jsval
  repeatInterval :: jsval
  repeatTimezone :: jsval
  repeatAt :: jsval
  progress :: "int option"

type_synonym job_args = "(jsval, bool field) job_fields"
type_synonym job_attrs = "(int, bool) job_fields"

record job =
  attrs :: job_attrs
  byJobProcessor :: bool
  canceled :: jsval

datatype store_call = SaveJobState job_attrs | GetJobs jsval

text \<open>
  The state a call works on: the job object, the calls made to the Persistence
  Gateway so far, the events emitted so far, and the clock. Each reading of the clock
  (\<^verbatim>\<open>new Date()\<close>, \<^verbatim>\<open>Date.now()\<close>) takes the next value of \<open>clock\<close>.
\<close>

record world =
  job :: job
  store_calls :: "store_call list"
  emitted :: "(string \<times> jsval option) list"
  clock :: "nat \<Rightarrow> int"
  ticks :: nat

text \<open>
  What a handler does that \<^verbatim>\<open>run\<close> can observe, in the order it happens: a
  synchronous throw, a call of the completion callback with an argument, the
  rejection or the fulfilment of the value it returned (a value that is no promise
  counts as fulfilled).
\<close>

datatype signal = Throws jsval | Callback jsval | ResultRejects jsval | ResultResolves

record job_definition =
  fn :: "world \<Rightarrow> signal list \<times> world"
  fn_length :: nat
  lockLifetime :: int

text \<open>
  The promise that \<^verbatim>\<open>saveJobState\<close> returns is fulfilled, rejected with a reason, or
  stays pending.
\<close>

datatype reply = Fulfils | Rejects jsval | StaysPending

text \<open>
  The scheduler context \<^verbatim>\<open>this.agenda\<close>: the job-type registry, the Persistence
  Gateway, and the listeners of the event bus. A listener is handed the job: it answers
  with the exception it throws, if any, and with the state it leaves behind.
\<close>

record agenda =
  definitions :: "string \<Rightarrow> job_definition option"
  db_saveJobState :: "world \<Rightarrow> reply"
  db_getJobs :: "jsval \<Rightarrow> world \<Rightarrow> jsval + job_attrs list option"
  listeners :: "string \<Rightarrow> jsval option \<Rightarrow> world \<Rightarrow> jsval option \<times> world"

text \<open>
  The imported modules \<^verbatim>\<open>./utils/priority\<close> and \<^verbatim>\<open>./utils/nextRunAt\<close>, whose
  sources are not part of \<^verbatim>\<open>Job.js\<close>: they are parameters. A recurrence strategy
  returns a date or throws.
\<close>

record externals =
  parsePriority :: "jsval \<Rightarrow> int"
  computeFromInterval :: "job_attrs \<Rightarrow> jsval + date"
  computeFromRepeatAt :: "job_attrs \<Rightarrow> jsval + date"

section \<open>Control flow\<close>

text \<open>
  A piece of code ends normally, with a thrown value, or never (an awaited promise
  that stays pending).
\<close>

datatype flow = Normal | Thrown jsval | Hang

type_synonym step = "world \<Rightarrow> flow \<times> world"

definition lift :: "(world \<Rightarrow> world) \<Rightarrow> step" where
  "lift f w = (Normal, f w)"

definition seq :: "step \<Rightarrow> step \<Rightarrow> step" where
  "seq f g w = (case f w of (Normal, w') \<Rightarrow> g w' | (r, w') \<Rightarrow> (r, w'))"

definition try_catch :: "step \<Rightarrow> (jsval \<Rightarrow> step) \<Rightarrow> step" where
  "try_catch body handler w =
     (case body w of (Thrown e, w') \<Rightarrow> handler e w' | (r, w') \<Rightarrow> (r, w'))"


definition upd_attrs :: "(job_attrs \<Rightarrow> job_attrs) \<Rightarrow> world \<Rightarrow> world" where
  "upd_attrs f w = w\<lparr>job := (job w)\<lparr>attrs := f (attrs (job w))\<rparr>\<rparr>"

definition new_Date :: "world \<Rightarrow> date \<times> world" where
  "new_Date w = (Date (clock w (ticks w)), w\<lparr>ticks := Suc (ticks w)\<rparr>)"

section \<open>The operations of \<^verbatim>\<open>Job\<close>\<close>

text \<open>The constructor: the job it builds takes the place of \<open>job w\<close>.\<close>

definition Job_new :: "externals \<Rightarrow> job_args \<Rightarrow> bool \<Rightarrow> world \<Rightarrow> world" where
  "Job_new ext args by_processor w =
     (let (next, w') =
            (case nextRunAt args of
               Undefined \<Rightarrow> (let (d, w1) = new_Date w in (Def d, w1))
             | v \<Rightarrow> (v, w));
          a = \<lparr> job_id = job_id args, name = name args, jtype = jtype args,
                priority = parsePriority ext (priority args),
                data = data args,
                nextRunAt = next,
                lastRunAt = lastRunAt args, lastFinishedAt = lastFinishedAt args,
                lockedAt = lockedAt args, failCount = failCount args,
                failReason = failReason args, failedAt = failedAt args,
                disabled = (case disabled args of Def b \<Rightarrow> b | _ \<Rightarrow> False),
                unique = unique args, uniqueOpts = uniqueOpts args,
                repeatInterval = repeatInterval args,
                repeatTimezone = repeatTimezone args,
                repeatAt = repeatAt args, progress = progress args \<rparr>
      in w'\<lparr>job := \<lparr> attrs = a, byJobProcessor = by_processor, canceled = JUndefined \<rparr>\<rparr>)"

text \<open>\<^verbatim>\<open>fail(reason)\<close>, lines 116 to 124.\<close>

definition fail :: "jsval \<Rightarrow> world \<Rightarrow> world" where
  "fail reason w =
     (let w1 = upd_attrs (\<lambda>a. a\<lparr>failReason :=
                  (case reason of JError k m \<Rightarrow> JStr m | v \<Rightarrow> v)\<rparr>) w;
          w2 = upd_attrs (\<lambda>a. a\<lparr>failCount :=
                  Some ((case failCount a of
                           None \<Rightarrow> 0
                         | Some n \<Rightarrow> (if n \<noteq> 0 then n else 0)) + 1)\<rparr>) w1;
          (now, w3) = new_Date w2
      in upd_attrs (\<lambda>a. a\<lparr>failedAt := Def now, lastFinishedAt := Def now\<rparr>) w3)"

text \<open>
  \<^verbatim>\<open>computeNextRunAt()\<close>, lines 205 to 224. The arguments of \<^verbatim>\<open>log\<close> are
  evaluated inside the try block, so a strategy that answers with the invalid date
  ends in the catch block as well.
\<close>

definition computeNextRunAt_try :: "externals \<Rightarrow> step" where
  "computeNextRunAt_try ext w =
     (if truthy (repeatInterval (attrs (job w))) then
        (case computeFromInterval ext (attrs (job w)) of
           Inl e \<Rightarrow> (Thrown e, w)
         | Inr d \<Rightarrow>
             (let w' = upd_attrs (\<lambda>a. a\<lparr>nextRunAt := Def d\<rparr>) w
              in case toISOString d of Some e \<Rightarrow> (Thrown e, w') | None \<Rightarrow> (Normal, w')))
      else if truthy (repeatAt (attrs (job w))) then
        (case computeFromRepeatAt ext (attrs (job w)) of
           Inl e \<Rightarrow> (Thrown e, w)
         | Inr d \<Rightarrow>
             (let w' = upd_attrs (\<lambda>a. a\<lparr>nextRunAt := Def d\<rparr>) w
              in case toISOString d of Some e \<Rightarrow> (Thrown e, w') | None \<Rightarrow> (Normal, w')))
      else (Normal, upd_attrs (\<lambda>a. a\<lparr>nextRunAt := Null\<rparr>) w))"

definition computeNextRunAt :: "externals \<Rightarrow> step" where
  "computeNextRunAt ext =
     try_catch (computeNextRunAt_try ext)
       (\<lambda>error. seq (lift (upd_attrs (\<lambda>a. a\<lparr>nextRunAt := Null\<rparr>))) (lift (fail error)))"

text \<open>\<^verbatim>\<open>repeatEvery(interval, options)\<close>, lines 48 to 61.\<close>

record repeat_options =
  timezone :: jsval
  skipImmediate :: jsval

definition repeatEvery :: "externals \<Rightarrow> jsval \<Rightarrow> repeat_options \<Rightarrow> step" where
  "repeatEvery ext interval options w =
     (let w1 = upd_attrs (\<lambda>a. a\<lparr>repeatInterval := interval\<rparr>) w;
          w2 = upd_attrs (\<lambda>a. a\<lparr>repeatTimezone := timezone options\<rparr>) w1
      in if truthy (skipImmediate options) then
           (let (anchor, w3) =
                  (case nextRunAt (attrs (job w2)) of
                     Def d \<Rightarrow> (d, w2)
                   | _ \<Rightarrow> new_Date w2)
            in seq (computeNextRunAt ext) (lift (upd_attrs (\<lambda>a. a\<lparr>lastRunAt := Undefined\<rparr>)))
                 (upd_attrs (\<lambda>a. a\<lparr>lastRunAt := Def anchor\<rparr>) w3))
         else computeNextRunAt ext w2)"

text \<open>The two operations of the Persistence Gateway that the job calls.\<close>

definition saveJobState :: "agenda \<Rightarrow> step" where
  "saveJobState ag w =
     (let w' = w\<lparr>store_calls := store_calls w @ [SaveJobState (attrs (job w))]\<rparr>
      in case db_saveJobState ag w' of
           Fulfils \<Rightarrow> (Normal, w')
         | Rejects e \<Rightarrow> (Thrown e, w')
         | StaysPending \<Rightarrow> (Hang, w'))"

text \<open>\<^verbatim>\<open>fetchStatus()\<close>, lines 125 to 135.\<close>

definition not_found :: "world \<Rightarrow> jsval" where
  "not_found w =
     JError Error (''job with id '' @ toString (job_id (attrs (job w))) @ '' not found in database'')"

definition fetchStatus :: "agenda \<Rightarrow> step" where
  "fetchStatus ag w =
     (let w' = w\<lparr>store_calls := store_calls w @ [GetJobs (job_id (attrs (job w)))]\<rparr>
      in case db_getJobs ag (job_id (attrs (job w))) w' of
           Inl e \<Rightarrow> (Thrown e, w')
         | Inr None \<Rightarrow> (Thrown (not_found w'), w')
         | Inr (Some []) \<Rightarrow> (Thrown (not_found w'), w')
         | Inr (Some (r # rs)) \<Rightarrow>
             (Normal, upd_attrs (\<lambda>a. a\<lparr>lastRunAt := lastRunAt r, lockedAt := lockedAt r,
                                         lastFinishedAt := lastFinishedAt r\<rparr>) w'))"

text \<open>\<^verbatim>\<open>isRunning()\<close>, lines 143 to 160.\<close>

definition running :: "job_attrs \<Rightarrow> bool" where
  "running a =
     (case lastRunAt a of
        Def r \<Rightarrow>
          (case lastFinishedAt a of
             Def f \<Rightarrow> (if present (lockedAt a) \<and> js_gt (getTime r) (getTime f) then True else False)
           | _ \<Rightarrow> True)
      | _ \<Rightarrow> False)"

definition isRunning :: "agenda \<Rightarrow> world \<Rightarrow> (jsval + bool) \<times> world" where
  "isRunning ag w =
     (case (if \<not> byJobProcessor (job w) then fetchStatus ag w else (Normal, w)) of
        (Thrown e, w') \<Rightarrow> (Inl e, w')
      | (r, w') \<Rightarrow> (Inr (running (attrs (job w'))), w'))"

text \<open>
  \<^verbatim>\<open>isExpired()\<close>, lines 183 to 192. The registry entry is dereferenced as it is:
  reading \<^verbatim>\<open>lockLifetime\<close> of \<^verbatim>\<open>undefined\<close> is a TypeError, after
  \<^verbatim>\<open>Date.now()\<close> has been read.
\<close>

definition isExpired :: "agenda \<Rightarrow> world \<Rightarrow> (jsval + bool) \<times> world" where
  "isExpired ag w =
     (let now = clock w (ticks w);
          w' = w\<lparr>ticks := Suc (ticks w)\<rparr>
      in case definitions ag (name (attrs (job w))) of
           None \<Rightarrow>
             (Inl (JError TypeError
                ''Cannot read properties of undefined (reading 'lockLifetime')''), w')
         | Some d \<Rightarrow>
             (let lockDeadline = Date (now - lockLifetime d)
              in (Inr (case lockedAt (attrs (job w')) of
                         Def l \<Rightarrow> (if js_lt (getTime l) (getTime lockDeadline) then True else False)
                       | _ \<Rightarrow> False), w')))"

text \<open>\<^verbatim>\<open>isDead()\<close>, lines 175 to 182.\<close>

definition isDead :: "agenda \<Rightarrow> world \<Rightarrow> (jsval + bool) \<times> world" where
  "isDead ag w =
     (case (if \<not> byJobProcessor (job w) then fetchStatus ag w else (Normal, w)) of
        (Thrown e, w') \<Rightarrow> (Inl e, w')
      | (r, w') \<Rightarrow> isExpired ag w')"

text \<open>\<^verbatim>\<open>touch(progress)\<close>, lines 197 to 204.\<close>

definition touch :: "agenda \<Rightarrow> int option \<Rightarrow> step" where
  "touch ag p w =
     (if truthy (canceled (job w)) then
        (Thrown (JError Error (''job '' @ name (attrs (job w)) @ '' got canceled already: ''
                                 @ toString (canceled (job w)) @ ''!'')), w)
      else
        (let (now, w1) = new_Date w;
             w2 = upd_attrs (\<lambda>a. a\<lparr>lockedAt := Def now\<rparr>) w1;
             w3 = upd_attrs (\<lambda>a. a\<lparr>progress := p\<rparr>) w2
         in saveJobState ag w3))"

section \<open>\<^verbatim>\<open>run()\<close>, lines 225 to 290\<close>















section \<open>States and relations that the statements speak of\<close>



text \<open>
  The state on which \<^verbatim>\<open>repeatEvery\<close> calls \<^verbatim>\<open>computeNextRunAt\<close> when
  \<^verbatim>\<open>skipImmediate\<close> is set (lines 49 to 53): interval and time zone stored, and
  \<open>lastRunAt\<close> set to the current \<open>nextRunAt\<close>, or to the time read when there is none.
\<close>

definition anchored :: "jsval \<Rightarrow> repeat_options \<Rightarrow> world \<Rightarrow> world" where
  "anchored interval options w =
     (case nextRunAt (attrs (job w)) of
        Def d \<Rightarrow>
          upd_attrs (\<lambda>a. a\<lparr>repeatInterval := interval, repeatTimezone := timezone options,
                              lastRunAt := Def d\<rparr>) w
      | _ \<Rightarrow>
          upd_attrs (\<lambda>a. a\<lparr>repeatInterval := interval, repeatTimezone := timezone options,
                              lastRunAt := Def (Date (clock w (ticks w)))\<rparr>)
            (w\<lparr>ticks := Suc (ticks w)\<rparr>))"

section \<open>The liveness table in the words of the specification\<close>

definition strictly_newer :: "date field \<Rightarrow> date field \<Rightarrow> bool" where
  "strictly_newer x y =
     (case (x, y) of (Def (Date r), Def (Date f)) \<Rightarrow> f < r | _ \<Rightarrow> False)"

text \<open>
  False if \<open>lastRunAt\<close> is absent; true if \<open>lastRunAt\<close> is present and
  \<open>lastFinishedAt\<close> absent; true if \<open>lockedAt\<close> is present and \<open>lastRunAt\<close>
  strictly newer than \<open>lastFinishedAt\<close>; false otherwise.
\<close>

definition spec_isRunning :: "date field \<Rightarrow> date field \<Rightarrow> date field \<Rightarrow> bool" where
  "spec_isRunning lastRun lastFinished locked =
     (if \<not> present lastRun then False
      else if present lastRun \<and> \<not> present lastFinished then True
      else if present locked \<and> strictly_newer lastRun lastFinished then True
      else False)"

section \<open>A concrete job and scheduler context\<close>

definition attrs0 :: job_attrs where
  "attrs0 = \<lparr> job_id = JStr ''j1'', name = ''mail'', jtype = JStr ''normal'', priority = 0,
     data = JNull, nextRunAt = Def (Date 1000), lastRunAt = Undefined,
     lastFinishedAt = Undefined, lockedAt = Def (Date 900), failCount = Some 0,
     failReason = JUndefined, failedAt = Undefined, disabled = False, unique = JUndefined,
     uniqueOpts = JUndefined, repeatInterval = JUndefined, repeatTimezone = JUndefined,
     repeatAt = JUndefined, progress = None \<rparr>"

definition world0 :: world where
  "world0 = \<lparr> job = \<lparr> attrs = attrs0, byJobProcessor = True, canceled = JUndefined \<rparr>,
     store_calls = [], emitted = [], clock = (\<lambda>n. 5000 + int n), ticks = 0 \<rparr>"

definition handler0 :: job_definition where
  "handler0 = \<lparr> fn = (\<lambda>w. ([Throws (JError Error ''boom'')], w)), fn_length = 1,
                 lockLifetime = 600 \<rparr>"

definition agenda0 :: agenda where
  "agenda0 = \<lparr> definitions = (\<lambda>n. if n = ''mail'' then Some handler0 else None),
                db_saveJobState = (\<lambda>w. Fulfils),
                db_getJobs = (\<lambda>i w. Inr (Some [attrs0\<lparr>lastRunAt := Def (Date 950)\<rparr>])),
                listeners = (\<lambda>ev err w. (None, w)) \<rparr>"

definition externals0 :: externals where
  "externals0 = \<lparr> parsePriority = (\<lambda>v. case v of JNum n \<Rightarrow> n | _ \<Rightarrow> 0),
     computeFromInterval = (\<lambda>a. case repeatInterval a of
          JNum n \<Rightarrow> Inr (Date ((case lastRunAt a of Def (Date t) \<Rightarrow> t | _ \<Rightarrow> 0) + n))
        | _ \<Rightarrow> Inl (JError Error ''failed to calculate nextRunAt due to invalid repeat interval'')),
     computeFromRepeatAt = (\<lambda>a. if repeatAt a = JStr ''noon'' then Inr (Date 43200000)
        else Inl (JError Error ''failed to calculate repeatAt time due to invalid format'')) \<rparr>"

definition args0 :: job_args where
  "args0 = \<lparr> job_id = JUndefined, name = ''mail'', jtype = JStr ''normal'', priority = JUndefined,
     data = JNull, nextRunAt = Null, lastRunAt = Undefined,
     lastFinishedAt = Undefined, lockedAt = Undefined, failCount = None,
     failReason = JUndefined, failedAt = Undefined, disabled = Undefined, unique = JUndefined,
     uniqueOpts = JUndefined, repeatInterval = JUndefined, repeatTimezone = JUndefined,
     repeatAt = JUndefined, progress = None \<rparr>"








section \<open>Failure accounting\<close>

lemma fail_attrs:
  "attrs (job (fail reason w)) = (attrs (job w))
     \<lparr>failReason := (case reason of JError k m \<Rightarrow> JStr m | v \<Rightarrow> v),
      failCount := Some ((case failCount (attrs (job w)) of None \<Rightarrow> 0 | Some n \<Rightarrow> n) + 1),
      failedAt := Def (Date (clock w (ticks w))),
      lastFinishedAt := Def (Date (clock w (ticks w)))\<rparr>"
  by (simp add: fail_def upd_attrs_def new_Date_def Let_def split: option.splits)

lemma fail_frame:
  "store_calls (fail reason w) = store_calls w"
  "emitted (fail reason w) = emitted w"
  "clock (fail reason w) = clock w"
  "ticks (fail reason w) = Suc (ticks w)"
  "byJobProcessor (job (fail reason w)) = byJobProcessor (job w)"
  "canceled (job (fail reason w)) = canceled (job w)"
  by (simp_all add: fail_def upd_attrs_def new_Date_def Let_def)

text \<open>
  C5. \<^verbatim>\<open>fail(reason)\<close> stores the message of an \<^verbatim>\<open>Error\<close> and any other value as it
  is, adds exactly one to \<open>failCount\<close> (an absent count is 0), and sets \<open>failedAt\<close> and
  \<open>lastFinishedAt\<close> to the time it reads. Two calls in a row add exactly two and leave
  the reason of the second call.
\<close>

theorem fail_accounting:
  "failReason (attrs (job (fail reason w))) = (case reason of JError k m \<Rightarrow> JStr m | v \<Rightarrow> v)
   \<and> failCount (attrs (job (fail reason w)))
       = Some ((case failCount (attrs (job w)) of None \<Rightarrow> 0 | Some n \<Rightarrow> n) + 1)
   \<and> failedAt (attrs (job (fail reason w))) = Def (Date (clock w (ticks w)))
   \<and> lastFinishedAt (attrs (job (fail reason w))) = Def (Date (clock w (ticks w)))
   \<and> failCount (attrs (job (fail second (fail reason w))))
       = Some ((case failCount (attrs (job w)) of None \<Rightarrow> 0 | Some n \<Rightarrow> n) + 2)
   \<and> failReason (attrs (job (fail second (fail reason w))))
       = (case second of JError k m \<Rightarrow> JStr m | v \<Rightarrow> v)"
  by (simp add: fail_attrs)

theorem fail_accounting_witness:
  "failCount (attrs (job (fail (JStr ''late'') (fail (JError Error ''boom'') world0)))) = Some 2
   \<and> failReason (attrs (job (fail (JStr ''late'') (fail (JError Error ''boom'') world0))))
       = JStr ''late''
   \<and> failReason (attrs (job (fail (JError Error ''boom'') world0))) = JStr ''boom''
   \<and> failedAt (attrs (job (fail (JError Error ''boom'') world0))) = Def (Date 5000)"
  using fail_accounting [of "JError Error ''boom''" world0 "JStr ''late''"]
  by (simp add: world0_def attrs0_def)

section \<open>Liveness, lease expiry and heartbeat\<close>

lemma running_spec:
  "running a = spec_isRunning (lastRunAt a) (lastFinishedAt a) (lockedAt a)"
proof (cases "lastRunAt a")
  case (Def r)
  show ?thesis
  proof (cases "lastFinishedAt a")
    case (Def f)
    with \<open>lastRunAt a = Def r\<close> show ?thesis
      by (cases r; cases f) (simp_all add: running_def spec_isRunning_def strictly_newer_def)
  qed (simp_all add: running_def spec_isRunning_def Def)
qed (simp_all add: running_def spec_isRunning_def)

text \<open>
  C3. On the executing instance \<^verbatim>\<open>isRunning()\<close> answers with the table of the
  specification, applied to the record's own fields, and changes nothing; on a client
  handle it answers with the table applied to the record the store returns. The table
  is true exactly when \<open>lastRunAt\<close> is present and either \<open>lastFinishedAt\<close> is absent
  or \<open>lockedAt\<close> is present and \<open>lastRunAt\<close> is strictly newer than \<open>lastFinishedAt\<close>.
\<close>

theorem isRunning_truth_table:
  "(byJobProcessor (job w) \<longrightarrow>
      isRunning ag w =
        (Inr (spec_isRunning (lastRunAt (attrs (job w))) (lastFinishedAt (attrs (job w)))
                (lockedAt (attrs (job w)))), w))
   \<and> (\<not> byJobProcessor (job w) \<and>
        db_getJobs ag (job_id (attrs (job w)))
          (w\<lparr>store_calls := store_calls w @ [GetJobs (job_id (attrs (job w)))]\<rparr>)
          = Inr (Some (r # rs)) \<longrightarrow>
      fst (isRunning ag w) = Inr (spec_isRunning (lastRunAt r) (lastFinishedAt r) (lockedAt r)))
   \<and> (spec_isRunning x y z \<longleftrightarrow>
        present x \<and> (\<not> present y \<or> present z \<and> strictly_newer x y))"
  by (simp add: isRunning_def fetchStatus_def running_spec upd_attrs_def Let_def
        spec_isRunning_def)

theorem isRunning_truth_table_witness:
  "isRunning agenda0 world0 = (Inr False, world0)
   \<and> fst (isRunning agenda0 (world0\<lparr>job := (job world0)\<lparr>byJobProcessor := False\<rparr>\<rparr>)) = Inr True
   \<and> spec_isRunning (Def (Date 7)) (Def (Date 5)) (Def (Date 1))
   \<and> \<not> spec_isRunning (Def (Date 5)) (Def (Date 5)) (Def (Date 1))
   \<and> \<not> spec_isRunning (Def (Date 7)) (Def (Date 5)) Undefined"
  using isRunning_truth_table [of world0 agenda0]
    isRunning_truth_table [of "world0\<lparr>job := (job world0)\<lparr>byJobProcessor := False\<rparr>\<rparr>" agenda0
       "attrs0\<lparr>lastRunAt := Def (Date 950)\<rparr>" "[]"]
    isRunning_truth_table [of _ _ _ _ "Def (Date 7)" "Def (Date 5)" "Def (Date 1)"]
    isRunning_truth_table [of _ _ _ _ "Def (Date 5)" "Def (Date 5)" "Def (Date 1)"]
    isRunning_truth_table [of _ _ _ _ "Def (Date 7)" "Def (Date 5)" Undefined]
  by (simp add: world0_def attrs0_def agenda0_def spec_isRunning_def strictly_newer_def)

text \<open>
  C6. For a job whose type is registered with lease duration \<open>lockLifetime d\<close>,
  \<^verbatim>\<open>isExpired()\<close> is true exactly when \<open>lockedAt\<close> holds a time strictly below the time
  read minus the lease duration: a lease whose age equals the duration is not expired,
  one millisecond more and it is.
\<close>

theorem isExpired_strict:
  assumes "definitions ag (name (attrs (job w))) = Some d"
  shows "fst (isExpired ag w) =
           Inr (\<exists>t. lockedAt (attrs (job w)) = Def (Date t)
                    \<and> t < clock w (ticks w) - lockLifetime d)
         \<and> (lockedAt (attrs (job w)) = Def (Date (clock w (ticks w) - lockLifetime d))
              \<longrightarrow> fst (isExpired ag w) = Inr False)
         \<and> (lockedAt (attrs (job w)) = Def (Date (clock w (ticks w) - lockLifetime d - 1))
              \<longrightarrow> fst (isExpired ag w) = Inr True)"
proof -
  have "fst (isExpired ag w) =
           Inr (\<exists>t. lockedAt (attrs (job w)) = Def (Date t)
                    \<and> t < clock w (ticks w) - lockLifetime d)"
  proof (cases "lockedAt (attrs (job w))")
    case (Def l)
    then show ?thesis using assms
      by (cases l) (simp_all add: isExpired_def Let_def)
  qed (simp_all add: isExpired_def Let_def assms)
  then show ?thesis by simp
qed

theorem isExpired_strict_witness:
  "fst (isExpired agenda0 (world0\<lparr>clock := (\<lambda>n. 1500)\<rparr>)) = Inr False
   \<and> fst (isExpired agenda0 (world0\<lparr>clock := (\<lambda>n. 1501)\<rparr>)) = Inr True"
  using isExpired_strict [of agenda0 "world0\<lparr>clock := (\<lambda>n. 1500)\<rparr>" handler0]
    isExpired_strict [of agenda0 "world0\<lparr>clock := (\<lambda>n. 1501)\<rparr>" handler0]
  by (simp add: world0_def attrs0_def agenda0_def handler0_def)

text \<open>
  C9. A job whose type has no entry in the registry: \<^verbatim>\<open>isExpired()\<close>, and
  \<^verbatim>\<open>isDead()\<close> through it, end in the TypeError of reading \<^verbatim>\<open>lockLifetime\<close> of
  \<^verbatim>\<open>undefined\<close>; the lookup is not guarded there as it is in \<^verbatim>\<open>run\<close>.
\<close>

theorem isExpired_unregistered:
  "fst (isExpired agenda0 (upd_attrs (\<lambda>a. a\<lparr>name := ''ghost''\<rparr>) world0))
     = Inl (JError TypeError ''Cannot read properties of undefined (reading 'lockLifetime')'')
   \<and> fst (isDead agenda0 (upd_attrs (\<lambda>a. a\<lparr>name := ''ghost''\<rparr>) world0))
     = Inl (JError TypeError ''Cannot read properties of undefined (reading 'lockLifetime')'')"
  by (simp add: isExpired_def isDead_def upd_attrs_def world0_def attrs0_def agenda0_def Let_def)

text \<open>
  C7. On a job that is not marked canceled, \<^verbatim>\<open>touch(progress)\<close> sets \<open>lockedAt\<close> to the
  time it reads, records the progress and hands exactly this state to the store at
  once, ending as the store's save ends (normally, with its rejection, or never). On a
  job marked canceled it throws an
  \<^verbatim>\<open>Error\<close> and leaves everything as it was: no field written, no call to the store.
\<close>

theorem touch_heartbeat:
  "(\<not> truthy (canceled (job w)) \<longrightarrow>
      lockedAt (attrs (job (snd (touch ag p w)))) = Def (Date (clock w (ticks w)))
      \<and> progress (attrs (job (snd (touch ag p w)))) = p
      \<and> store_calls (snd (touch ag p w))
          = store_calls w @ [SaveJobState ((attrs (job w))
                \<lparr>lockedAt := Def (Date (clock w (ticks w))), progress := p\<rparr>)]
      \<and> fst (touch ag p w)
          = (case db_saveJobState ag (snd (touch ag p w)) of
               Fulfils \<Rightarrow> Normal | Rejects e \<Rightarrow> Thrown e | StaysPending \<Rightarrow> Hang))
   \<and> (truthy (canceled (job w)) \<longrightarrow>
        (\<exists>m. fst (touch ag p w) = Thrown (JError Error m)) \<and> snd (touch ag p w) = w)"
  by (simp add: touch_def saveJobState_def upd_attrs_def new_Date_def Let_def
        split: reply.splits)

theorem touch_heartbeat_witness:
  "touch agenda0 (Some 40) world0
     = (Normal, world0\<lparr>job := (job world0)\<lparr>attrs := attrs0\<lparr>lockedAt := Def (Date 5000),
                                                              progress := Some 40\<rparr>\<rparr>,
                        store_calls := [SaveJobState (attrs0\<lparr>lockedAt := Def (Date 5000),
                                                              progress := Some 40\<rparr>)],
                        ticks := 1\<rparr>)
   \<and> touch agenda0 (Some 40) (world0\<lparr>job := (job world0)\<lparr>canceled := JBool True\<rparr>\<rparr>)
     = (Thrown (JError Error ''job mail got canceled already: true!''),
        world0\<lparr>job := (job world0)\<lparr>canceled := JBool True\<rparr>\<rparr>)"
  using touch_heartbeat [of world0 agenda0 "Some 40"]
    touch_heartbeat [of "world0\<lparr>job := (job world0)\<lparr>canceled := JBool True\<rparr>\<rparr>" agenda0 "Some 40"]
  by (simp add: touch_def saveJobState_def upd_attrs_def new_Date_def Let_def
        world0_def attrs0_def agenda0_def)

section \<open>Construction\<close>

text \<open>
  C10. The constructor puts the current time into \<open>nextRunAt\<close> only when the field is
  \<^verbatim>\<open>undefined\<close> in the specification object; an explicit \<^verbatim>\<open>null\<close> stays
  \<^verbatim>\<open>null\<close> and a given date stays that date.
\<close>

theorem constructor_nextRunAt_default:
  "nextRunAt (attrs (job (Job_new ext args b w))) =
     (case nextRunAt args of
        Undefined \<Rightarrow> Def (Date (clock w (ticks w)))
      | Null \<Rightarrow> Null
      | Def d \<Rightarrow> Def d)"
  by (simp add: Job_new_def new_Date_def Let_def split: field.splits)

theorem constructor_nextRunAt_default_witness:
  "nextRunAt (attrs (job (Job_new externals0 args0 False world0))) = Null
   \<and> nextRunAt (attrs (job (Job_new externals0 (args0\<lparr>nextRunAt := Undefined\<rparr>) False world0)))
       = Def (Date 5000)"
  using constructor_nextRunAt_default [of externals0 args0 False world0]
    constructor_nextRunAt_default [of externals0 "args0\<lparr>nextRunAt := Undefined\<rparr>" False world0]
  by (simp add: args0_def world0_def)

section \<open>Recurrence\<close>

lemma computeNextRunAt_Normal: "fst (computeNextRunAt ext w) = Normal"
  by (simp add: computeNextRunAt_def computeNextRunAt_try_def try_catch_def seq_def lift_def
        Let_def split: sum.splits option.splits)

lemma computeNextRunAt_interval:
  assumes "truthy (repeatInterval (attrs (job w)))"
  shows "snd (computeNextRunAt ext w) =
     (case computeFromInterval ext (attrs (job w)) of
        Inr (Date t) \<Rightarrow> upd_attrs (\<lambda>a. a\<lparr>nextRunAt := Def (Date t)\<rparr>) w
      | Inr InvalidDate \<Rightarrow> fail (JError RangeError ''Invalid time value'')
                             (upd_attrs (\<lambda>a. a\<lparr>nextRunAt := Null\<rparr>) w)
      | Inl e \<Rightarrow> fail e (upd_attrs (\<lambda>a. a\<lparr>nextRunAt := Null\<rparr>) w))"
  using assms
  by (simp add: computeNextRunAt_def computeNextRunAt_try_def try_catch_def seq_def lift_def
        upd_attrs_def Let_def split: sum.splits date.splits)

lemma computeNextRunAt_repeatAt:
  assumes "\<not> truthy (repeatInterval (attrs (job w)))" "truthy (repeatAt (attrs (job w)))"
  shows "snd (computeNextRunAt ext w) =
     (case computeFromRepeatAt ext (attrs (job w)) of
        Inr (Date t) \<Rightarrow> upd_attrs (\<lambda>a. a\<lparr>nextRunAt := Def (Date t)\<rparr>) w
      | Inr InvalidDate \<Rightarrow> fail (JError RangeError ''Invalid time value'')
                             (upd_attrs (\<lambda>a. a\<lparr>nextRunAt := Null\<rparr>) w)
      | Inl e \<Rightarrow> fail e (upd_attrs (\<lambda>a. a\<lparr>nextRunAt := Null\<rparr>) w))"
  using assms
  by (simp add: computeNextRunAt_def computeNextRunAt_try_def try_catch_def seq_def lift_def
        upd_attrs_def Let_def split: sum.splits date.splits)

lemma computeNextRunAt_none:
  assumes "\<not> truthy (repeatInterval (attrs (job w)))" "\<not> truthy (repeatAt (attrs (job w)))"
  shows "snd (computeNextRunAt ext w) = upd_attrs (\<lambda>a. a\<lparr>nextRunAt := Null\<rparr>) w"
  using assms
  by (simp add: computeNextRunAt_def computeNextRunAt_try_def try_catch_def)

lemma fail_after_clear:
  "nextRunAt (attrs (job (fail e (upd_attrs (\<lambda>a. a\<lparr>nextRunAt := Null\<rparr>) w)))) = Null"
  "failCount (attrs (job (fail e (upd_attrs (\<lambda>a. a\<lparr>nextRunAt := Null\<rparr>) w))))
     = Some ((case failCount (attrs (job w)) of None \<Rightarrow> 0 | Some n \<Rightarrow> n) + 1)"
  "lastRunAt (attrs (job (fail e (upd_attrs (\<lambda>a. a\<lparr>nextRunAt := Null\<rparr>) w))))
     = lastRunAt (attrs (job w))"
  "store_calls (fail e (upd_attrs (\<lambda>a. a\<lparr>nextRunAt := Null\<rparr>) w)) = store_calls w"
  "emitted (fail e (upd_attrs (\<lambda>a. a\<lparr>nextRunAt := Null\<rparr>) w)) = emitted w"
  by (simp_all add: fail_attrs fail_frame) (simp_all add: upd_attrs_def)

text \<open>
  C4. \<^verbatim>\<open>computeNextRunAt()\<close> never throws. With a truthy \<open>repeatInterval\<close> it takes
  \<open>nextRunAt\<close> from the interval strategy, otherwise with a truthy \<open>repeatAt\<close> from the
  fixed-time strategy, otherwise it sets \<open>nextRunAt\<close> to \<^verbatim>\<open>null\<close>. When the strategy
  it calls throws \<open>e\<close>, the outcome is \<^verbatim>\<open>fail(e)\<close> on the record with \<open>nextRunAt\<close>
  cleared: \<open>failCount\<close> is one more, and \<open>lastRunAt\<close>, the store and the event bus are
  untouched.
\<close>

theorem computeNextRunAt_delegates:
  "fst (computeNextRunAt ext w) = Normal
   \<and> (truthy (repeatInterval (attrs (job w)))
        \<and> computeFromInterval ext (attrs (job w)) = Inr (Date t) \<longrightarrow>
      snd (computeNextRunAt ext w) = upd_attrs (\<lambda>a. a\<lparr>nextRunAt := Def (Date t)\<rparr>) w)
   \<and> (\<not> truthy (repeatInterval (attrs (job w))) \<and> truthy (repeatAt (attrs (job w)))
        \<and> computeFromRepeatAt ext (attrs (job w)) = Inr (Date t) \<longrightarrow>
      snd (computeNextRunAt ext w) = upd_attrs (\<lambda>a. a\<lparr>nextRunAt := Def (Date t)\<rparr>) w)
   \<and> (\<not> truthy (repeatInterval (attrs (job w))) \<and> \<not> truthy (repeatAt (attrs (job w))) \<longrightarrow>
      snd (computeNextRunAt ext w) = upd_attrs (\<lambda>a. a\<lparr>nextRunAt := Null\<rparr>) w)
   \<and> (truthy (repeatInterval (attrs (job w)))
          \<and> computeFromInterval ext (attrs (job w)) = Inl e
        \<or> \<not> truthy (repeatInterval (attrs (job w))) \<and> truthy (repeatAt (attrs (job w)))
          \<and> computeFromRepeatAt ext (attrs (job w)) = Inl e \<longrightarrow>
      snd (computeNextRunAt ext w) = fail e (upd_attrs (\<lambda>a. a\<lparr>nextRunAt := Null\<rparr>) w)
      \<and> nextRunAt (attrs (job (snd (computeNextRunAt ext w)))) = Null
      \<and> failCount (attrs (job (snd (computeNextRunAt ext w))))
          = Some ((case failCount (attrs (job w)) of None \<Rightarrow> 0 | Some n \<Rightarrow> n) + 1)
      \<and> lastRunAt (attrs (job (snd (computeNextRunAt ext w)))) = lastRunAt (attrs (job w))
      \<and> store_calls (snd (computeNextRunAt ext w)) = store_calls w
      \<and> emitted (snd (computeNextRunAt ext w)) = emitted w)"
proof -
  have a: "truthy (repeatInterval (attrs (job w)))
        \<and> computeFromInterval ext (attrs (job w)) = Inr (Date t) \<longrightarrow>
      snd (computeNextRunAt ext w) = upd_attrs (\<lambda>a. a\<lparr>nextRunAt := Def (Date t)\<rparr>) w"
    by (simp add: computeNextRunAt_interval)
  have b: "\<not> truthy (repeatInterval (attrs (job w))) \<and> truthy (repeatAt (attrs (job w)))
        \<and> computeFromRepeatAt ext (attrs (job w)) = Inr (Date t) \<longrightarrow>
      snd (computeNextRunAt ext w) = upd_attrs (\<lambda>a. a\<lparr>nextRunAt := Def (Date t)\<rparr>) w"
    by (simp add: computeNextRunAt_repeatAt)
  have c: "\<not> truthy (repeatInterval (attrs (job w))) \<and> \<not> truthy (repeatAt (attrs (job w))) \<longrightarrow>
      snd (computeNextRunAt ext w) = upd_attrs (\<lambda>a. a\<lparr>nextRunAt := Null\<rparr>) w"
    by (simp add: computeNextRunAt_none)
  have d: "truthy (repeatInterval (attrs (job w)))
          \<and> computeFromInterval ext (attrs (job w)) = Inl e
        \<or> \<not> truthy (repeatInterval (attrs (job w))) \<and> truthy (repeatAt (attrs (job w)))
          \<and> computeFromRepeatAt ext (attrs (job w)) = Inl e \<longrightarrow>
      snd (computeNextRunAt ext w) = fail e (upd_attrs (\<lambda>a. a\<lparr>nextRunAt := Null\<rparr>) w)"
    by (auto simp add: computeNextRunAt_interval computeNextRunAt_repeatAt)
  from a b c d show ?thesis
    by (simp add: computeNextRunAt_Normal fail_after_clear)
qed


theorem computeNextRunAt_delegates_witness:
  "snd (computeNextRunAt externals0 (upd_attrs (\<lambda>a. a\<lparr>repeatInterval := JNum 60000\<rparr>) world0))
     = upd_attrs (\<lambda>a. a\<lparr>nextRunAt := Def (Date 60000)\<rparr>)
         (upd_attrs (\<lambda>a. a\<lparr>repeatInterval := JNum 60000\<rparr>) world0)
   \<and> snd (computeNextRunAt externals0 (upd_attrs (\<lambda>a. a\<lparr>repeatAt := JStr ''noon''\<rparr>) world0))
     = upd_attrs (\<lambda>a. a\<lparr>nextRunAt := Def (Date 43200000)\<rparr>)
         (upd_attrs (\<lambda>a. a\<lparr>repeatAt := JStr ''noon''\<rparr>) world0)
   \<and> snd (computeNextRunAt externals0 world0) = upd_attrs (\<lambda>a. a\<lparr>nextRunAt := Null\<rparr>) world0
   \<and> nextRunAt (attrs (job (snd (computeNextRunAt externals0
        (upd_attrs (\<lambda>a. a\<lparr>repeatInterval := JStr ''bogus''\<rparr>) world0))))) = Null
   \<and> failCount (attrs (job (snd (computeNextRunAt externals0
        (upd_attrs (\<lambda>a. a\<lparr>repeatInterval := JStr ''bogus''\<rparr>) world0))))) = Some 1
   \<and> fst (computeNextRunAt externals0
        (upd_attrs (\<lambda>a. a\<lparr>repeatInterval := JStr ''bogus''\<rparr>) world0)) = Normal"
proof -
  let ?w1 = "upd_attrs (\<lambda>a. a\<lparr>repeatInterval := JNum 60000\<rparr>) world0"
  let ?w2 = "upd_attrs (\<lambda>a. a\<lparr>repeatAt := JStr ''noon''\<rparr>) world0"
  let ?w3 = "upd_attrs (\<lambda>a. a\<lparr>repeatInterval := JStr ''bogus''\<rparr>) world0"
  let ?e = "JError Error ''failed to calculate nextRunAt due to invalid repeat interval''"
  have h1: "truthy (repeatInterval (attrs (job ?w1)))
      \<and> computeFromInterval externals0 (attrs (job ?w1)) = Inr (Date 60000)"
    by (simp add: upd_attrs_def externals0_def world0_def attrs0_def)
  have h2: "\<not> truthy (repeatInterval (attrs (job ?w2))) \<and> truthy (repeatAt (attrs (job ?w2)))
      \<and> computeFromRepeatAt externals0 (attrs (job ?w2)) = Inr (Date 43200000)"
    by (simp add: upd_attrs_def externals0_def world0_def attrs0_def)
  have h0: "\<not> truthy (repeatInterval (attrs (job world0)))
      \<and> \<not> truthy (repeatAt (attrs (job world0)))"
    by (simp add: world0_def attrs0_def)
  have h3: "truthy (repeatInterval (attrs (job ?w3)))
      \<and> computeFromInterval externals0 (attrs (job ?w3)) = Inl ?e"
    by (simp add: upd_attrs_def externals0_def world0_def attrs0_def)
  have c: "failCount (attrs (job ?w3)) = Some 0"
    by (simp add: upd_attrs_def world0_def attrs0_def)
  show ?thesis
    using computeNextRunAt_delegates [of externals0 ?w1 60000] h1
      computeNextRunAt_delegates [of externals0 ?w2 43200000] h2
      computeNextRunAt_delegates [of externals0 world0] h0
      computeNextRunAt_delegates [of externals0 ?w3 _ ?e] h3 c
    by (simp add: fail_after_clear)
qed

lemma repeatEvery_anchored:
  assumes "truthy (skipImmediate options)"
  shows "repeatEvery ext interval options w =
           (Normal, upd_attrs (\<lambda>a. a\<lparr>lastRunAt := Undefined\<rparr>)
                      (snd (computeNextRunAt ext (anchored interval options w))))"
proof -
  have "repeatEvery ext interval options w
      = seq (computeNextRunAt ext) (lift (upd_attrs (\<lambda>a. a\<lparr>lastRunAt := Undefined\<rparr>)))
          (anchored interval options w)"
    using assms
    by (cases "nextRunAt (attrs (job w))")
       (simp_all add: repeatEvery_def anchored_def upd_attrs_def new_Date_def Let_def)
  moreover obtain w4 where "computeNextRunAt ext (anchored interval options w) = (Normal, w4)"
    using computeNextRunAt_Normal [of ext "anchored interval options w"]
    by (cases "computeNextRunAt ext (anchored interval options w)") simp
  ultimately show ?thesis by (simp add: seq_def lift_def)
qed

lemma anchored_attrs:
  "attrs (job (anchored interval options w)) =
     (attrs (job w))\<lparr>repeatInterval := interval, repeatTimezone := timezone options,
                      lastRunAt := Def (case nextRunAt (attrs (job w)) of
                                          Def d \<Rightarrow> d | _ \<Rightarrow> Date (clock w (ticks w)))\<rparr>"
  by (cases "nextRunAt (attrs (job w))") (simp_all add: anchored_def upd_attrs_def)

text \<open>
  The claim C8 as it is written fails on this call: the strategy rejects the interval,
  and the record afterwards has no \<open>nextRunAt\<close> at all and carries a failure.
\<close>

theorem repeatEvery_skipImmediate_counterexample:
  "truthy (skipImmediate \<lparr>timezone = JUndefined, skipImmediate = JBool True\<rparr>)
   \<and> nextRunAt (attrs (job (snd (repeatEvery externals0 (JStr ''bogus'')
        \<lparr>timezone = JUndefined, skipImmediate = JBool True\<rparr> world0)))) = Null
   \<and> failCount (attrs (job (snd (repeatEvery externals0 (JStr ''bogus'')
        \<lparr>timezone = JUndefined, skipImmediate = JBool True\<rparr> world0)))) = Some 1
   \<and> failReason (attrs (job (snd (repeatEvery externals0 (JStr ''bogus'')
        \<lparr>timezone = JUndefined, skipImmediate = JBool True\<rparr> world0))))
       = JStr ''failed to calculate nextRunAt due to invalid repeat interval''
   \<and> failedAt (attrs (job (snd (repeatEvery externals0 (JStr ''bogus'')
        \<lparr>timezone = JUndefined, skipImmediate = JBool True\<rparr> world0)))) = Def (Date 5000)
   \<and> lastFinishedAt (attrs (job (snd (repeatEvery externals0 (JStr ''bogus'')
        \<lparr>timezone = JUndefined, skipImmediate = JBool True\<rparr> world0)))) = Def (Date 5000)
   \<and> failCount (attrs (job world0)) = Some 0
   \<and> lastFinishedAt (attrs (job world0)) = Undefined"
  by (simp add: repeatEvery_def computeNextRunAt_def computeNextRunAt_try_def try_catch_def
        seq_def lift_def fail_def upd_attrs_def new_Date_def Let_def
        externals0_def world0_def attrs0_def)

text \<open>
  C8, amended. With \<^verbatim>\<open>options.skipImmediate\<close> set, \<^verbatim>\<open>repeatEvery\<close> ends normally on
  every job: it is \<^verbatim>\<open>computeNextRunAt\<close> on the record that holds the interval, the time
  zone and, as \<open>lastRunAt\<close>, the current \<open>nextRunAt\<close> (or the time read when there is
  none), followed by the clearing of \<open>lastRunAt\<close>. When the interval is truthy and the
  interval strategy answers with a date for that record, the record afterwards differs
  from the one before in exactly this: the interval and time zone given, that date as
  \<open>nextRunAt\<close>, and no \<open>lastRunAt\<close>. When the interval is truthy and the strategy
  throws \<open>e\<close>, the record has in addition no \<open>nextRunAt\<close> and the failure accounted as
  by \<^verbatim>\<open>fail(e)\<close>.
\<close>

theorem repeatEvery_skipImmediate:
  assumes "truthy (skipImmediate options)"
  shows "fst (repeatEvery ext interval options w) = Normal
   \<and> snd (repeatEvery ext interval options w)
       = upd_attrs (\<lambda>a. a\<lparr>lastRunAt := Undefined\<rparr>)
           (snd (computeNextRunAt ext (anchored interval options w)))
   \<and> attrs (job (anchored interval options w))
       = (attrs (job w))\<lparr>repeatInterval := interval, repeatTimezone := timezone options,
                          lastRunAt := Def (case nextRunAt (attrs (job w)) of
                                              Def d \<Rightarrow> d | _ \<Rightarrow> Date (clock w (ticks w)))\<rparr>
   \<and> lastRunAt (attrs (job (snd (repeatEvery ext interval options w)))) = Undefined
   \<and> (truthy interval
        \<and> computeFromInterval ext ((attrs (job w))
             \<lparr>repeatInterval := interval, repeatTimezone := timezone options,
              lastRunAt := Def (case nextRunAt (attrs (job w)) of
                                  Def d \<Rightarrow> d | _ \<Rightarrow> Date (clock w (ticks w)))\<rparr>)
            = Inr (Date t) \<longrightarrow>
      attrs (job (snd (repeatEvery ext interval options w)))
        = (attrs (job w))\<lparr>repeatInterval := interval, repeatTimezone := timezone options,
                           nextRunAt := Def (Date t), lastRunAt := Undefined\<rparr>)
   \<and> (truthy interval
        \<and> computeFromInterval ext ((attrs (job w))
             \<lparr>repeatInterval := interval, repeatTimezone := timezone options,
              lastRunAt := Def (case nextRunAt (attrs (job w)) of
                                  Def d \<Rightarrow> d | _ \<Rightarrow> Date (clock w (ticks w)))\<rparr>)
            = Inl e \<longrightarrow>
      attrs (job (snd (repeatEvery ext interval options w)))
        = (attrs (job w))\<lparr>repeatInterval := interval, repeatTimezone := timezone options,
             nextRunAt := Null,
             failReason := (case e of JError k m \<Rightarrow> JStr m | v \<Rightarrow> v),
             failCount := Some ((case failCount (attrs (job w)) of
                                   None \<Rightarrow> 0 | Some n \<Rightarrow> n) + 1),
             failedAt := Def (Date (clock (anchored interval options w)
                                      (ticks (anchored interval options w)))),
             lastFinishedAt := Def (Date (clock (anchored interval options w)
                                            (ticks (anchored interval options w)))),
             lastRunAt := Undefined\<rparr>)"
proof -
  let ?x = "anchored interval options w"
  note r = repeatEvery_anchored [OF assms, of ext interval w]
  have i: "truthy interval \<Longrightarrow> truthy (repeatInterval (attrs (job ?x)))"
    by (simp add: anchored_attrs)
  have ok: "truthy interval \<and> computeFromInterval ext (attrs (job ?x)) = Inr (Date t) \<longrightarrow>
      attrs (job (snd (repeatEvery ext interval options w)))
        = (attrs (job ?x))\<lparr>nextRunAt := Def (Date t), lastRunAt := Undefined\<rparr>"
    using computeNextRunAt_interval [of ?x ext] i by (auto simp add: r upd_attrs_def)
  have bad: "truthy interval \<and> computeFromInterval ext (attrs (job ?x)) = Inl e \<longrightarrow>
      attrs (job (snd (repeatEvery ext interval options w)))
        = (attrs (job (fail e (upd_attrs (\<lambda>a. a\<lparr>nextRunAt := Null\<rparr>) ?x))))
             \<lparr>lastRunAt := Undefined\<rparr>"
    using computeNextRunAt_interval [of ?x ext] i by (auto simp add: r upd_attrs_def)
  have c: "clock (upd_attrs f x) = clock x" "ticks (upd_attrs f x) = ticks x"
      "attrs (job (upd_attrs f x)) = f (attrs (job x))" for f x
    by (simp_all add: upd_attrs_def)
  have u: "lastRunAt (attrs (job (snd (repeatEvery ext interval options w)))) = Undefined"
    by (simp add: r upd_attrs_def)
  from ok bad u show ?thesis
    by (simp add: r fail_attrs c anchored_attrs)
qed

theorem repeatEvery_skipImmediate_witness:
  "fst (repeatEvery externals0 (JNum 60000) \<lparr>timezone = JUndefined, skipImmediate = JBool True\<rparr>
          world0) = Normal
   \<and> attrs (job (snd (repeatEvery externals0 (JNum 60000)
          \<lparr>timezone = JUndefined, skipImmediate = JBool True\<rparr> world0)))
     = attrs0\<lparr>repeatInterval := JNum 60000, repeatTimezone := JUndefined,
              nextRunAt := Def (Date 61000), lastRunAt := Undefined\<rparr>
   \<and> nextRunAt (attrs (job (snd (repeatEvery externals0 (JStr ''bogus'')
          \<lparr>timezone = JUndefined, skipImmediate = JBool True\<rparr> world0)))) = Null"
proof -
  let ?o = "\<lparr>timezone = JUndefined, skipImmediate = JBool True\<rparr>"
  let ?e = "JError Error ''failed to calculate nextRunAt due to invalid repeat interval''"
  have h: "truthy (skipImmediate ?o)" by simp
  have i: "truthy (JNum 60000)
      \<and> computeFromInterval externals0 ((attrs (job world0))
             \<lparr>repeatInterval := JNum 60000, repeatTimezone := timezone ?o,
              lastRunAt := Def (case nextRunAt (attrs (job world0)) of
                                  Def d \<Rightarrow> d | _ \<Rightarrow> Date (clock world0 (ticks world0)))\<rparr>)
            = Inr (Date 61000)"
    by (simp add: externals0_def world0_def attrs0_def)
  have j: "truthy (JStr ''bogus'')
      \<and> computeFromInterval externals0 ((attrs (job world0))
             \<lparr>repeatInterval := JStr ''bogus'', repeatTimezone := timezone ?o,
              lastRunAt := Def (case nextRunAt (attrs (job world0)) of
                                  Def d \<Rightarrow> d | _ \<Rightarrow> Date (clock world0 (ticks world0)))\<rparr>)
            = Inl ?e"
    by (simp add: externals0_def world0_def attrs0_def)
  have a: "attrs (job world0) = attrs0" by (simp add: world0_def)
  have A: "fst (repeatEvery externals0 (JNum 60000) ?o world0) = Normal
      \<and> attrs (job (snd (repeatEvery externals0 (JNum 60000) ?o world0)))
        = (attrs (job world0))\<lparr>repeatInterval := JNum 60000, repeatTimezone := timezone ?o,
                                nextRunAt := Def (Date 61000), lastRunAt := Undefined\<rparr>"
    using repeatEvery_skipImmediate [OF h, of externals0 "JNum 60000" world0 61000] i
    by blast
  have B: "attrs (job (snd (repeatEvery externals0 (JStr ''bogus'') ?o world0)))
      = ((attrs (job world0))\<lparr>repeatInterval := JStr ''bogus'',
             repeatTimezone := timezone ?o,
             nextRunAt := Null,
             failReason := (case ?e of JError k m \<Rightarrow> JStr m | v \<Rightarrow> v),
             failCount := Some ((case failCount (attrs (job world0)) of
                                   None \<Rightarrow> 0 | Some n \<Rightarrow> n) + 1),
             failedAt := Def (Date (clock (anchored (JStr ''bogus'') ?o world0)
                                      (ticks (anchored (JStr ''bogus'') ?o world0)))),
             lastFinishedAt := Def (Date (clock (anchored (JStr ''bogus'') ?o world0)
                                            (ticks (anchored (JStr ''bogus'') ?o world0)))),
             lastRunAt := Undefined\<rparr>)"
    using repeatEvery_skipImmediate [OF h, of externals0 "JStr ''bogus''" world0 0 ?e] j
    by blast
  show ?thesis
    using A B a by simp
qed

section \<open>Execution\<close>


































end
